theory Spec2Isabelle
  imports Main
begin

section \<open>The control-adapter preprocessor listener and the app-info endpoints\<close>

text \<open>
  This theory embeds two source files of the web frontend:
  \<^item> \<^verbatim>\<open>listeners/controlAdapterPreprocessor.ts\<close>: the listener effect that re-runs a
    control-adapter layer's processor after a quiet period, and its helper
    \<^verbatim>\<open>cancelProcessorBatch\<close>;
  \<^item> \<^verbatim>\<open>services/api/endpoints/appInfo.ts\<close>: the endpoint declarations of \<^verbatim>\<open>appInfoApi\<close>.

  The effect is an \<^verbatim>\<open>async\<close> function. Everything it does to the outside (store
  dispatches, requests, log lines, listener-API calls) is recorded, in program order, as a
  list of events. Everything the outside does to it (what \<^verbatim>\<open>getState()\<close> returns, how each
  awaited promise settles, when the listener is cancelled) is read from an environment
  record, so that one environment fixes one run.
\<close>

subsection \<open>Data\<close>

type_synonym layer_id = string
type_synonym batch_id = string

text \<open>The image a layer holds, and the image descriptor the backend returns.\<close>

datatype image_ref = ImageRef string
datatype image_dto = ImageDTO string

text \<open>A processor configuration is tagged by its processor kind (\<^verbatim>\<open>config.type\<close>).\<close>

record processor_config =
  config_id :: string
  config_type :: string

record control_adapter =
  ca_image :: "image_ref option"
  processorConfig :: "processor_config option"
  processedImage :: "image_ref option"
  processorPendingBatchId :: "batch_id option"

text \<open>
  The layers of the store are a tagged union; \<^verbatim>\<open>isControlAdapterLayer\<close> is the type guard of
  the control-adapter case, the only one with a \<^verbatim>\<open>controlAdapter\<close> field.
\<close>

datatype layer =
    ControlAdapterLayer layer_id control_adapter
  | OtherLayer layer_id string

type_synonym app_state = "layer list"

text \<open>A graph node as \<^verbatim>\<open>buildNode\<close> returns it, and the batch built around it.\<close>

record node =
  node_id :: string
  node_type :: string
  node_image :: "string option"
  is_intermediate :: bool

record graph =
  nodes :: "(string \<times> node) list"
  edges :: "(string \<times> string) list"

record batch =
  batch_graph :: graph
  runs :: nat

record batch_config =
  prepend :: bool
  batch :: batch

subsection \<open>JavaScript values that matter\<close>

text \<open>
  A thrown value is inspected by the handler with \<^verbatim>\<open>instanceof Object\<close>, the \<^verbatim>\<open>in\<close>
  operator and \<^verbatim>\<open>=== 403\<close>, so it is kept as an object with a property list, or a primitive.
\<close>

datatype js_val = JNum int | JStr string | JBool bool | JNull | JUndefined | JOpaque

datatype thrown = ThrownObject "(string \<times> js_val) list" | ThrownPrimitive js_val

fun instanceof_Object :: "thrown \<Rightarrow> bool" where
  "instanceof_Object (ThrownObject ps) = True"
| "instanceof_Object (ThrownPrimitive v) = False"

fun has_property :: "string \<Rightarrow> thrown \<Rightarrow> bool" where
  "has_property k (ThrownObject ps) = (map_of ps k \<noteq> None)"
| "has_property k (ThrownPrimitive v) = False"

fun get_property :: "string \<Rightarrow> thrown \<Rightarrow> js_val" where
  "get_property k (ThrownObject ps) = (case map_of ps k of None \<Rightarrow> JUndefined | Some v \<Rightarrow> v)"
| "get_property k (ThrownPrimitive v) = JUndefined"

definition TaskAbortError :: thrown where
  "TaskAbortError =
     ThrownObject [(''name'', JStr ''TaskAbortError''), (''code'', JStr ''listener-cancelled'')]"

definition AssertionError :: "string \<Rightarrow> thrown" where
  "AssertionError msg =
     ThrownObject [(''name'', JStr ''AssertionError''), (''message'', JStr msg)]"

definition TypeError :: "string \<Rightarrow> thrown" where
  "TypeError msg = ThrownObject [(''name'', JStr ''TypeError''), (''message'', JStr msg)]"

text \<open>What \<^verbatim>\<open>req.unwrap()\<close> rejects with when the server answers with an error status.\<close>

definition FetchBaseQueryError :: "js_val \<Rightarrow> js_val \<Rightarrow> thrown" where
  "FetchBaseQueryError status data = ThrownObject [(''status'', status), (''data'', data)]"

text \<open>
  Truthiness of an optional string, as in \<^verbatim>\<open>if (x)\<close> and \<^verbatim>\<open>assert(x, msg)\<close>: \<^verbatim>\<open>null\<close>,
  \<^verbatim>\<open>undefined\<close> and the empty string are falsy. \<open>narrowed x\<close> is the string the
  true branch works with.
\<close>

fun narrowed :: "string option \<Rightarrow> string option" where
  "narrowed None = None"
| "narrowed (Some s) = (if s = [] then None else Some s)"

subsection \<open>Events, awaited results, runs\<close>

datatype log_level = Trace | Debug | Error

text \<open>The store actions the listener dispatches.\<close>

datatype action =
    CaLayerProcessedImageChanged layer_id "image_dto option"
  | CaLayerProcessorPendingBatchIdChanged layer_id "batch_id option"
  | CaLayerImageChanged layer_id "image_dto option"
  | AddToast string string

datatype event =
    CancelActiveListeners
  | Log log_level string
  | Dispatch action
  | CancelByBatchIds "batch_id list"
  | EnqueueBatch batch_config string
  | GetImageDTO string
  | ResetCancelRequest
  | ResetEnqueueRequest

fun is_state_write :: "event \<Rightarrow> bool" where
  "is_state_write (Dispatch a) = True"
| "is_state_write e = False"

fun is_network_call :: "event \<Rightarrow> bool" where
  "is_network_call (CancelByBatchIds bs) = True"
| "is_network_call (EnqueueBatch arg k) = True"
| "is_network_call (GetImageDTO n) = True"
| "is_network_call e = False"

fun is_enqueue :: "event \<Rightarrow> bool" where
  "is_enqueue (EnqueueBatch arg k) = True"
| "is_enqueue e = False"

text \<open>How an awaited promise settles; \<open>Pending\<close> is a promise that never settles.\<close>

datatype 'a settle = Resolved 'a | Rejected thrown | Pending

text \<open>How the effect (an async function) ends.\<close>

datatype completion = Returned | Threw thrown | Suspended

text \<open>
  A call of an async function that nobody awaits: the events it issues synchronously, up to
  its first \<^verbatim>\<open>await\<close>, belong to the caller's sequence; its continuation runs whenever the
  awaited request settles, so it is kept apart, with the way the call ends.
\<close>

record async_call =
  issued :: "event list"
  continuation :: "event list"
  settled :: completion

record run =
  events :: "event list"
  detached :: "(event list \<times> completion) list"
  outcome :: completion

subsection \<open>The actions that trigger the listener\<close>

text \<open>
  \<^verbatim>\<open>matcher = isAnyOf(caLayerImageChanged, caLayerProcessorConfigChanged,
  caLayerModelChanged, caLayerRecalled)\<close>. The payload of a recall is the layer itself.
\<close>

datatype trigger =
    ImageChangedTrigger layer_id "image_dto option"
  | ProcessorConfigChangedTrigger layer_id "processor_config option"
  | ModelChangedTrigger layer_id string
  | RecalledTrigger layer_id control_adapter

fun layerId_of :: "trigger \<Rightarrow> layer_id" where
  "layerId_of (RecalledTrigger i ca) = i"
| "layerId_of (ImageChangedTrigger l d) = l"
| "layerId_of (ProcessorConfigChangedTrigger l c) = l"
| "layerId_of (ModelChangedTrigger l m) = l"

subsection \<open>The socket event awaited by \<^verbatim>\<open>take\<close>\<close>

datatype invocation_output = ImageOutput string | NonImageOutput string

record invocation_complete =
  queue_batch_id :: string
  source_node_id :: string
  inv_result :: invocation_output

datatype store_action = SocketInvocationComplete invocation_complete | UnrelatedAction string

text \<open>
  What the listener sees while it waits in \<^verbatim>\<open>take\<close>: actions passing through the store, and
  possibly its own cancellation by a newer instance.
\<close>

datatype inbound = Passing store_action | ListenerCancelled

datatype 'a take_result = TakeResolved 'a | TakeRejected | TakeNeverSettles

text \<open>
  \<^verbatim>\<open>take(predicate)\<close> without a timeout: rejects at once when the signal is already aborted,
  rejects when the listener is cancelled before a match, resolves with the first action the
  predicate (a type guard, here a partial function) accepts, and otherwise never settles.
\<close>

fun take_action :: "bool \<Rightarrow> (store_action \<Rightarrow> 'a option) \<Rightarrow> inbound list \<Rightarrow> 'a take_result" where
  "take_action True p xs = TakeRejected"
| "take_action False p [] = TakeNeverSettles"
| "take_action False p (ListenerCancelled # xs) = TakeRejected"
| "take_action False p (Passing a # xs) =
     (case p a of Some d \<Rightarrow> TakeResolved d | None \<Rightarrow> take_action False p xs)"

text \<open>The predicate of lines 119-122.\<close>

fun completion_of :: "batch_id \<Rightarrow> string \<Rightarrow> store_action \<Rightarrow> invocation_complete option" where
  "completion_of b n (SocketInvocationComplete d) =
     (if queue_batch_id d = b \<and> source_node_id d = n then Some d else None)"
| "completion_of b n (UnrelatedAction a) = None"

subsection \<open>The environment of one run\<close>

text \<open>
  \<open>cancelled_after\<close>: the time, counted from the trigger, at which a newer matching action
  cancels this instance while it is in \<^verbatim>\<open>delay\<close> (\<open>None\<close>: not during the delay). The flags
  \<open>abort_during_enqueue\<close> and \<open>abort_during_fetch\<close> say that the cancellation arrives while
  the effect awaits the enqueue request or the image descriptor; neither await watches the
  signal, so the effect only resumes with the flag \<^verbatim>\<open>signal.aborted\<close> set. The two
  states are what \<^verbatim>\<open>getState()\<close> returns at line 61 and at line 142; the responses are
  how the requests settle (\<open>Inl\<close>: rejected); \<open>inbound_actions\<close> is what passes through
  the store while the effect waits in \<^verbatim>\<open>take\<close>.
\<close>

record env =
  cancelled_after :: "nat option"
  state_after_delay :: app_state
  stale_cancel_response :: "thrown + unit"
  enqueue_response :: "thrown + batch_id option"
  abort_during_enqueue :: bool
  inbound_actions :: "inbound list"
  image_fetch :: "thrown + image_dto option"
  abort_during_fetch :: bool
  state_at_catch :: app_state
  abort_cancel_response :: "thrown + unit"

text \<open>
  \<^verbatim>\<open>CA_PROCESSOR_DATA\<close> is declared outside the embedded files; it is a parameter: a table
  from processor kinds to node builders. A builder receives the layer's image as it is
  (possibly \<^verbatim>\<open>null\<close>) and may throw.
\<close>

type_synonym build_node = "image_ref option \<Rightarrow> processor_config \<Rightarrow> thrown + node"
type_synonym processor_data = "string \<Rightarrow> build_node option"

subsection \<open>The listener\<close>

definition DEBOUNCE_MS :: nat where
  "DEBOUNCE_MS = 300"

text \<open>\<^verbatim>\<open>delay(ms)\<close>: rejects with a \<^verbatim>\<open>TaskAbortError\<close> when the listener is cancelled before \<open>ms\<close> have passed.\<close>

definition delay :: "nat \<Rightarrow> nat option \<Rightarrow> unit settle" where
  "delay ms cancelled =
     (case cancelled of
        None \<Rightarrow> Resolved ()
      | Some t \<Rightarrow> if t < ms then Rejected TaskAbortError else Resolved ())"

text \<open>
  \<^verbatim>\<open>state.controlLayers.present.layers.filter(isControlAdapterLayer).find((l) => l.id === layerId)\<close>
\<close>

fun control_adapter_layers :: "app_state \<Rightarrow> (layer_id \<times> control_adapter) list" where
  "control_adapter_layers [] = []"
| "control_adapter_layers (ControlAdapterLayer i ca # ls) = (i, ca) # control_adapter_layers ls"
| "control_adapter_layers (OtherLayer i t # ls) = control_adapter_layers ls"

definition find_layer :: "app_state \<Rightarrow> layer_id \<Rightarrow> (layer_id \<times> control_adapter) option" where
  "find_layer st layerId = List.find (\<lambda>l. fst l = layerId) (control_adapter_layers st)"

text \<open>
  \<^verbatim>\<open>cancelProcessorBatch\<close> (lines 33-45): the request is dispatched and a trace line logged;
  after the awaited request settles, fulfilled or rejected alike, the \<^verbatim>\<open>finally\<close> block
  resets the request and dispatches the pending batch id \<^verbatim>\<open>null\<close>.
\<close>

definition cancelProcessorBatch :: "layer_id \<Rightarrow> batch_id \<Rightarrow> thrown + unit \<Rightarrow> async_call" where
  "cancelProcessorBatch layerId batchId response =
     \<lparr>issued = [CancelByBatchIds [batchId], Log Trace ''Cancelling existing preprocessor batch''],
      continuation =
        (case response of Inr u \<Rightarrow> [] | Inl e \<Rightarrow> [])
        @ [ResetCancelRequest, Dispatch (CaLayerProcessorPendingBatchIdChanged layerId None)],
      settled = Returned\<rparr>"

text \<open>
  \<^verbatim>\<open>if (pendingBatchId) { cancelProcessorBatch(dispatch, layerId, pendingBatchId); }\<close>, as
  written at lines 80-82 and 145-147. The call is not awaited: the events it issues join the
  caller's, its continuation is detached.
\<close>

definition cancel_if_pending ::
  "layer_id \<Rightarrow> batch_id option \<Rightarrow> thrown + unit \<Rightarrow> event list \<times> (event list \<times> completion) list" where
  "cancel_if_pending layerId pendingBatchId response =
     (case narrowed pendingBatchId of
        None \<Rightarrow> ([], [])
      | Some b \<Rightarrow>
          let c = cancelProcessorBatch layerId b response
          in (issued c, [(continuation c, settled c)]))"

text \<open>Lines 86-101: the one-node graph, with the node marked intermediate.\<close>

definition enqueueBatchArg :: "node \<Rightarrow> batch_config" where
  "enqueueBatchArg processorNode =
     \<lparr>prepend = True,
      batch = \<lparr>batch_graph =
                 \<lparr>nodes = [(node_id processorNode, processorNode\<lparr>is_intermediate := True\<rparr>)],
                  edges = []\<rparr>,
               runs = 1\<rparr>\<rparr>"

text \<open>
  The \<^verbatim>\<open>try\<close> block (lines 111-138). The result is the events of the block, the value of
  \<^verbatim>\<open>signal.aborted\<close> when the block ends, and how the block ends. The two awaited
  requests do not watch the signal; \<^verbatim>\<open>take\<close> does.
\<close>

definition try_block :: "layer_id \<Rightarrow> node \<Rightarrow> env \<Rightarrow> event list \<times> bool \<times> unit settle" where
  "try_block layerId processorNode env =
     (case enqueue_response env of
        Inl e \<Rightarrow> ([], abort_during_enqueue env, Rejected e)
      | Inr batch_id_opt \<Rightarrow>
          (case narrowed batch_id_opt of
             None \<Rightarrow>
               ([], abort_during_enqueue env,
                Rejected (AssertionError ''Batch ID not returned from queue''))
           | Some b \<Rightarrow>
               let ev1 = [Dispatch (CaLayerProcessorPendingBatchIdChanged layerId (Some b)),
                          Log Debug ''queue.graphQueued'']
               in (case take_action (abort_during_enqueue env)
                          (completion_of b (node_id processorNode)) (inbound_actions env) of
                     TakeRejected \<Rightarrow> (ev1, True, Rejected TaskAbortError)
                   | TakeNeverSettles \<Rightarrow> (ev1, False, Pending)
                   | TakeResolved d \<Rightarrow>
                       (case inv_result d of
                          NonImageOutput t \<Rightarrow>
                            (ev1, False,
                             Rejected (AssertionError ''Processor did not return an image output''))
                        | ImageOutput image_name \<Rightarrow>
                            let ev2 = ev1 @ [GetImageDTO image_name]
                            in (case image_fetch env of
                                  Inl e \<Rightarrow> (ev2, abort_during_fetch env, Rejected e)
                                | Inr None \<Rightarrow>
                                    (ev2, abort_during_fetch env,
                                     Rejected (AssertionError
                                       ''Failed to fetch processor output's image DTO''))
                                | Inr (Some imageDTO) \<Rightarrow>
                                    (ev2 @ [Log Debug ''ControlNet image processed'',
                                            Dispatch (CaLayerProcessedImageChanged layerId (Some imageDTO)),
                                            Dispatch (CaLayerProcessorPendingBatchIdChanged layerId None)],
                                     abort_during_fetch env, Resolved ()))))))"

text \<open>
  \<^verbatim>\<open>getState()...find((l) => l.id === layerId)?.controlAdapter.processorPendingBatchId\<close>
  (lines 142-144).
\<close>

definition pending_batch_id_of :: "app_state \<Rightarrow> layer_id \<Rightarrow> batch_id option" where
  "pending_batch_id_of st layerId =
     (case find_layer st layerId of
        None \<Rightarrow> None
      | Some l \<Rightarrow> processorPendingBatchId (snd l))"

text \<open>
  The \<^verbatim>\<open>catch\<close> block (lines 139-168), for the thrown value \<open>error\<close> and the value of
  \<^verbatim>\<open>signal.aborted\<close>. Neither branch throws.
\<close>

definition catch_block ::
  "layer_id \<Rightarrow> env \<Rightarrow> bool \<Rightarrow> thrown \<Rightarrow> event list \<times> (event list \<times> completion) list" where
  "catch_block layerId env aborted error =
     (if aborted then
        (case cancel_if_pending layerId (pending_batch_id_of (state_at_catch env) layerId)
                (abort_cancel_response env) of
           (evs, det) \<Rightarrow> (evs @ [Log Trace ''Control Adapter preprocessor cancelled''], det))
      else
        if instanceof_Object error
           \<and> has_property ''data'' error \<and> has_property ''status'' error
           \<and> get_property ''status'' error = JNum 403
        then ([Log Error ''queue.graphFailedToQueue'',
               Dispatch (CaLayerImageChanged layerId None)], [])
        else ([Log Error ''queue.graphFailedToQueue'',
               Dispatch (AddToast ''queue.graphFailedToQueue'' ''error'')], []))"

text \<open>
  Lines 110-171: \<^verbatim>\<open>try\<close>, \<^verbatim>\<open>catch\<close>, \<^verbatim>\<open>finally\<close>. When the block never settles, the effect
  stays suspended and the \<^verbatim>\<open>finally\<close> block is not reached.
\<close>

definition submit_and_reconcile :: "layer_id \<Rightarrow> node \<Rightarrow> env \<Rightarrow> run" where
  "submit_and_reconcile layerId processorNode env =
     (case try_block layerId processorNode env of
        (evs, aborted, Resolved u) \<Rightarrow>
          \<lparr>events = evs @ [ResetEnqueueRequest], detached = [], outcome = Returned\<rparr>
      | (evs, aborted, Pending) \<Rightarrow>
          \<lparr>events = evs, detached = [], outcome = Suspended\<rparr>
      | (evs, aborted, Rejected error) \<Rightarrow>
          (case catch_block layerId env aborted error of
             (evs', det) \<Rightarrow>
               \<lparr>events = evs @ evs' @ [ResetEnqueueRequest], detached = det, outcome = Returned\<rparr>))"

text \<open>
  Lines 69-108, for the layer found after the delay. There is no \<^verbatim>\<open>return\<close> after the
  dispatch of line 74, so the code goes on to line 80 whatever the image and the
  configuration are; \<^verbatim>\<open>config.type\<close> throws a \<^verbatim>\<open>TypeError\<close> when the configuration is
  \<^verbatim>\<open>null\<close>, as does the call of \<^verbatim>\<open>buildNode\<close> on a kind missing from the table. Both are
  outside the \<^verbatim>\<open>try\<close> block.
\<close>

definition clear_if_reset :: "layer_id \<Rightarrow> control_adapter \<Rightarrow> event list" where
  "clear_if_reset layerId controlAdapter =
     (if ca_image controlAdapter = None \<or> processorConfig controlAdapter = None
      then [Dispatch (CaLayerProcessedImageChanged layerId None)] else [])"

definition process_layer :: "processor_data \<Rightarrow> layer_id \<Rightarrow> control_adapter \<Rightarrow> env \<Rightarrow> run" where
  "process_layer CA_PROCESSOR_DATA layerId controlAdapter env =
     (let image = ca_image controlAdapter;
          config = processorConfig controlAdapter;
          ev1 = clear_if_reset layerId controlAdapter;
          c = cancel_if_pending layerId (processorPendingBatchId controlAdapter)
                (stale_cancel_response env);
          ev2 = ev1 @ fst c
      in case config of
           None \<Rightarrow>
             \<lparr>events = ev2, detached = snd c,
              outcome = Threw (TypeError ''Cannot read properties of null (reading 'type')'')\<rparr>
         | Some cfg \<Rightarrow>
             (case CA_PROCESSOR_DATA (config_type cfg) of
                None \<Rightarrow>
                  \<lparr>events = ev2, detached = snd c,
                   outcome = Threw (TypeError
                     ''Cannot read properties of undefined (reading 'buildNode')'')\<rparr>
              | Some buildNode \<Rightarrow>
                  (case buildNode image cfg of
                     Inl e \<Rightarrow> \<lparr>events = ev2, detached = snd c, outcome = Threw e\<rparr>
                   | Inr processorNode \<Rightarrow>
                       let r = submit_and_reconcile layerId processorNode env
                       in \<lparr>events = ev2
                                     @ [EnqueueBatch (enqueueBatchArg processorNode) ''enqueueBatch'']
                                     @ events r,
                           detached = snd c @ detached r,
                           outcome = outcome r\<rparr>)))"

text \<open>The effect (lines 50-172).\<close>

definition effect :: "processor_data \<Rightarrow> trigger \<Rightarrow> env \<Rightarrow> run" where
  "effect CA_PROCESSOR_DATA action env =
     (let layerId = layerId_of action;
          ev0 = [CancelActiveListeners, Log Trace ''Control Layer CA auto-process triggered'']
      in case delay DEBOUNCE_MS (cancelled_after env) of
           Rejected e \<Rightarrow> \<lparr>events = ev0, detached = [], outcome = Threw e\<rparr>
         | Pending \<Rightarrow> \<lparr>events = ev0, detached = [], outcome = Suspended\<rparr>
         | Resolved u \<Rightarrow>
             (case find_layer (state_after_delay env) layerId of
                None \<Rightarrow> \<lparr>events = ev0, detached = [], outcome = Returned\<rparr>
              | Some l \<Rightarrow>
                  let r = process_layer CA_PROCESSOR_DATA layerId (snd l) env
                  in \<lparr>events = ev0 @ events r, detached = detached r, outcome = outcome r\<rparr>))"

text \<open>
  The listener middleware, for two matching actions at times \<open>t1 \<le> t2\<close>. Each action
  starts an instance of the effect. \<^verbatim>\<open>cancelActiveListeners()\<close> aborts the other running
  instances of the listener at the moment it is called. An instance calls it at the time of
  its trigger when the call is the first thing the instance does, before any \<^verbatim>\<open>await\<close>:
  that is read off the instance's events.
\<close>

definition cancels_on_trigger :: "run \<Rightarrow> bool" where
  "cancels_on_trigger r =
     (case events r of
        [] \<Rightarrow> False
      | e # es \<Rightarrow> e = CancelActiveListeners)"

text \<open>
  The first instance is aborted \<open>t2 - t1\<close> after it started if the second instance cancels
  the active listeners on its trigger; if it does not, nothing aborts the first instance
  during its delay.
\<close>

definition two_triggers ::
  "processor_data \<Rightarrow> trigger \<Rightarrow> nat \<Rightarrow> env \<Rightarrow> trigger \<Rightarrow> nat \<Rightarrow> env \<Rightarrow> run \<times> run" where
  "two_triggers CA_PROCESSOR_DATA a1 t1 env1 a2 t2 env2 =
     (let second = effect CA_PROCESSOR_DATA a2 env2;
          first = effect CA_PROCESSOR_DATA a1
                    (env1\<lparr>cancelled_after :=
                       (if cancels_on_trigger second then Some (t2 - t1) else None)\<rparr>)
      in (first, second))"

subsection \<open>The endpoints of \<^verbatim>\<open>appInfoApi\<close>\<close>

datatype endpoint_kind = Query | Mutation

record endpoint =
  endpoint_name :: string
  kind :: endpoint_kind
  url :: string
  http_method :: string
  providesTags :: "string list"
  invalidatesTags :: "string list"

definition getAppVersion :: endpoint where
  "getAppVersion =
     \<lparr>endpoint_name = ''getAppVersion'', kind = Query, url = ''app/version'',
      http_method = ''GET'', providesTags = [''FetchOnReconnect''], invalidatesTags = []\<rparr>"

definition getAppDeps :: endpoint where
  "getAppDeps =
     \<lparr>endpoint_name = ''getAppDeps'', kind = Query, url = ''app/app_deps'',
      http_method = ''GET'', providesTags = [''FetchOnReconnect''], invalidatesTags = []\<rparr>"

definition getAppConfig :: endpoint where
  "getAppConfig =
     \<lparr>endpoint_name = ''getAppConfig'', kind = Query, url = ''app/config'',
      http_method = ''GET'', providesTags = [''FetchOnReconnect''], invalidatesTags = []\<rparr>"

definition getInvocationCacheStatus :: endpoint where
  "getInvocationCacheStatus =
     \<lparr>endpoint_name = ''getInvocationCacheStatus'', kind = Query,
      url = ''app/invocation_cache/status'', http_method = ''GET'',
      providesTags = [''InvocationCacheStatus'', ''FetchOnReconnect''], invalidatesTags = []\<rparr>"

definition clearInvocationCache :: endpoint where
  "clearInvocationCache =
     \<lparr>endpoint_name = ''clearInvocationCache'', kind = Mutation,
      url = ''app/invocation_cache'', http_method = ''DELETE'',
      providesTags = [], invalidatesTags = [''InvocationCacheStatus'']\<rparr>"

definition enableInvocationCache :: endpoint where
  "enableInvocationCache =
     \<lparr>endpoint_name = ''enableInvocationCache'', kind = Mutation,
      url = ''app/invocation_cache/enable'', http_method = ''PUT'',
      providesTags = [], invalidatesTags = [''InvocationCacheStatus'']\<rparr>"

definition disableInvocationCache :: endpoint where
  "disableInvocationCache =
     \<lparr>endpoint_name = ''disableInvocationCache'', kind = Mutation,
      url = ''app/invocation_cache/disable'', http_method = ''PUT'',
      providesTags = [], invalidatesTags = [''InvocationCacheStatus'']\<rparr>"

definition appInfoApi :: "endpoint list" where
  "appInfoApi =
     [getAppVersion, getAppDeps, getAppConfig, getInvocationCacheStatus,
      clearInvocationCache, enableInvocationCache, disableInvocationCache]"

subsection \<open>Observations on runs\<close>

text \<open>The run submitted the batch built around the node \<open>processorNode\<close> (lines 104-108).\<close>

definition submitted :: "run \<Rightarrow> node \<Rightarrow> bool" where
  "submitted r processorNode =
     (EnqueueBatch (enqueueBatchArg processorNode) ''enqueueBatch'' \<in> set (events r))"

text \<open>What the effect has done when it dispatches the enqueue request (lines 50-82).\<close>

definition before_submission :: "layer_id \<Rightarrow> control_adapter \<Rightarrow> env \<Rightarrow> event list" where
  "before_submission layerId controlAdapter env =
     [CancelActiveListeners, Log Trace ''Control Layer CA auto-process triggered'']
     @ clear_if_reset layerId controlAdapter
     @ fst (cancel_if_pending layerId (processorPendingBatchId controlAdapter)
              (stale_cancel_response env))"

text \<open>
  An access-denied response: an object with a \<^verbatim>\<open>data\<close> property whose \<^verbatim>\<open>status\<close> property
  is the number 403.
\<close>

definition is_forbidden_response :: "thrown \<Rightarrow> bool" where
  "is_forbidden_response error =
     (case error of
        ThrownObject ps \<Rightarrow> map_of ps ''data'' \<noteq> None \<and> map_of ps ''status'' = Some (JNum 403)
      | ThrownPrimitive v \<Rightarrow> False)"

fun is_mutation :: "endpoint \<Rightarrow> bool" where
  "is_mutation e = (kind e = Mutation)"

subsection \<open>Concrete inputs\<close>

text \<open>
  A processor table with one kind, whose builder reads the image's name (and so throws on
  \<^verbatim>\<open>null\<close>); a second table whose builder does not look at the image.
\<close>

definition canny_config :: processor_config where
  "canny_config = \<lparr>config_id = ''N1'', config_type = ''canny_image_processor''\<rparr>"

fun canny_buildNode :: build_node where
  "canny_buildNode None config =
     Inl (TypeError ''Cannot read properties of null (reading 'name')'')"
| "canny_buildNode (Some (ImageRef n)) config =
     Inr \<lparr>node_id = config_id config, node_type = ''canny_image_processor'',
          node_image = Some n, is_intermediate = False\<rparr>"

definition canny_only :: processor_data where
  "canny_only t = (if t = ''canny_image_processor'' then Some canny_buildNode else None)"

definition lenient_buildNode :: build_node where
  "lenient_buildNode img config =
     Inr \<lparr>node_id = config_id config, node_type = config_type config,
          node_image = (case img of None \<Rightarrow> None | Some (ImageRef n) \<Rightarrow> Some n),
          is_intermediate = False\<rparr>"

definition lenient_table :: processor_data where
  "lenient_table t = Some lenient_buildNode"

text \<open>
  The scenario of the specification: layer \<open>L1\<close> has image \<open>I1\<close> and a canny configuration;
  the backend answers with batch \<open>B1\<close>; the completion event of node \<open>N1\<close> in batch \<open>B1\<close>
  carries the image \<open>out.png\<close>, whose descriptor is fetched.
\<close>

definition layer_L1 :: control_adapter where
  "layer_L1 =
     \<lparr>ca_image = Some (ImageRef ''I1''), processorConfig = Some canny_config,
      processedImage = None, processorPendingBatchId = None\<rparr>"

definition completion_B1 :: invocation_complete where
  "completion_B1 =
     \<lparr>queue_batch_id = ''B1'', source_node_id = ''N1'', inv_result = ImageOutput ''out.png''\<rparr>"

definition scenario :: env where
  "scenario =
     \<lparr>cancelled_after = None,
      state_after_delay = [OtherLayer ''R1'' ''regional_guidance_layer'',
                           ControlAdapterLayer ''L1'' layer_L1],
      stale_cancel_response = Inr (),
      enqueue_response = Inr (Some ''B1''),
      abort_during_enqueue = False,
      inbound_actions = [Passing (UnrelatedAction ''socketConnected''),
                         Passing (SocketInvocationComplete completion_B1)],
      image_fetch = Inr (Some (ImageDTO ''out.png'')),
      abort_during_fetch = False,
      state_at_catch = [ControlAdapterLayer ''L1'' layer_L1],
      abort_cancel_response = Inr ()\<rparr>"

definition node_N1 :: node where
  "node_N1 =
     \<lparr>node_id = ''N1'', node_type = ''canny_image_processor'',
      node_image = Some ''I1'', is_intermediate = False\<rparr>"

definition trigger_L1 :: trigger where
  "trigger_L1 = ImageChangedTrigger ''L1'' (Some (ImageDTO ''I1''))"

text \<open>The processor configuration of \<open>L1\<close> was reset while batch \<open>B0\<close> was pending.\<close>

definition config_reset :: env where
  "config_reset =
     scenario\<lparr>state_after_delay :=
       [ControlAdapterLayer ''L1''
          (layer_L1\<lparr>processorConfig := None, processorPendingBatchId := Some ''B0''\<rparr>)]\<rparr>"

text \<open>The image of \<open>L1\<close> was reset.\<close>

definition image_reset :: env where
  "image_reset =
     scenario\<lparr>state_after_delay := [ControlAdapterLayer ''L1'' (layer_L1\<lparr>ca_image := None\<rparr>)]\<rparr>"

text \<open>Batch \<open>B0\<close> is pending for \<open>L1\<close>, and the request that cancels it fails.\<close>

definition stale_pending :: env where
  "stale_pending =
     scenario\<lparr>state_after_delay :=
                [ControlAdapterLayer ''L1'' (layer_L1\<lparr>processorPendingBatchId := Some ''B0''\<rparr>)],
              stale_cancel_response := Inl (FetchBaseQueryError (JNum 404) JOpaque)\<rparr>"



text \<open>The three contract violations.\<close>

definition no_batch_id :: env where
  "no_batch_id = scenario\<lparr>enqueue_response := Inr None\<rparr>"

definition latents_result :: env where
  "latents_result =
     scenario\<lparr>inbound_actions :=
       [Passing (SocketInvocationComplete
          (completion_B1\<lparr>inv_result := NonImageOutput ''latents_output''\<rparr>))]\<rparr>"

definition descriptor_missing :: env where
  "descriptor_missing = scenario\<lparr>image_fetch := Inr None\<rparr>"

text \<open>
  The listener is cancelled while it waits for the completion event; by then the store
  holds the pending batch \<open>B2\<close> for \<open>L1\<close>, not the batch \<open>B1\<close> this instance submitted.
\<close>

definition cancelled_while_waiting :: env where
  "cancelled_while_waiting =
     scenario\<lparr>inbound_actions := [Passing (UnrelatedAction ''socketConnected''), ListenerCancelled],
              state_at_catch :=
                [ControlAdapterLayer ''L1'' (layer_L1\<lparr>processorPendingBatchId := Some ''B2''\<rparr>)]\<rparr>"

section \<open>Properties\<close>

subsection \<open>Auxiliary facts\<close>

lemmas run_defs =
  effect_def process_layer_def submit_and_reconcile_def try_block_def catch_block_def
  cancel_if_pending_def cancelProcessorBatch_def clear_if_reset_def pending_batch_id_of_def
  find_layer_def delay_def DEBOUNCE_MS_def enqueueBatchArg_def Let_def

lemmas input_defs =
  scenario_def layer_L1_def completion_B1_def canny_config_def canny_only_def
  lenient_table_def lenient_buildNode_def node_N1_def trigger_L1_def

lemma control_adapter_layers_mem:
  "(i, ca) \<in> set (control_adapter_layers st) \<longleftrightarrow> ControlAdapterLayer i ca \<in> set st"
  by (induction st rule: control_adapter_layers.induct) auto

lemma find_layer_None_iff:
  "find_layer st layerId = None \<longleftrightarrow> (\<forall>ca. ControlAdapterLayer layerId ca \<notin> set st)"
  unfolding find_layer_def find_None_iff
  using control_adapter_layers_mem by fastforce

lemma find_layer_Some_mem:
  assumes "find_layer st layerId = Some l"
  shows "ControlAdapterLayer layerId (snd l) \<in> set st"
proof -
  from assms have "l \<in> set (control_adapter_layers st)" and "fst l = layerId"
    unfolding find_layer_def by (auto simp: find_Some_iff)
  then show ?thesis
    using control_adapter_layers_mem [of "fst l" "snd l" st] by (cases l) auto
qed

lemma narrowed_Some_iff: "narrowed x = Some b \<longleftrightarrow> x = Some b \<and> b \<noteq> []"
  by (cases x) auto

lemma delay_Resolved_iff:
  "delay ms c = Resolved () \<longleftrightarrow> (\<forall>t. c = Some t \<longrightarrow> ms \<le> t)"
  by (auto simp: delay_def split: option.splits)

lemma forbidden_check:
  "(instanceof_Object error \<and> has_property ''data'' error \<and> has_property ''status'' error
     \<and> get_property ''status'' error = JNum 403) \<longleftrightarrow> is_forbidden_response error"
  by (cases error) (auto simp: is_forbidden_response_def split: option.splits)


lemma assertion_not_forbidden: "\<not> is_forbidden_response (AssertionError msg)"
  by (simp add: is_forbidden_response_def AssertionError_def)

text \<open>A resolved \<^verbatim>\<open>take\<close> hands over an action that passed by and that the predicate accepts.\<close>

lemma take_resolved_matches:
  "take_action ab (completion_of b n) xs = TakeResolved d \<Longrightarrow>
     \<not> ab \<and> Passing (SocketInvocationComplete d) \<in> set xs
     \<and> queue_batch_id d = b \<and> source_node_id d = n"
proof (induction ab "completion_of b n" xs rule: take_action.induct)
  case (4 a xs)
  then show ?case
    by (cases a) (auto split: option.splits if_splits)
qed simp_all

text \<open>The blocks depend on the node through its id only.\<close>

lemma enqueueBatchArg_node_id:
  "enqueueBatchArg nd = enqueueBatchArg nd' \<Longrightarrow> node_id nd = node_id nd'"
  by (simp add: enqueueBatchArg_def)

lemma try_block_node_id:
  "node_id nd = node_id nd' \<Longrightarrow> try_block layerId nd env = try_block layerId nd' env"
  by (simp add: try_block_def split: sum.splits option.splits)

lemma submit_and_reconcile_node_id:
  "node_id nd = node_id nd' \<Longrightarrow>
     submit_and_reconcile layerId nd env = submit_and_reconcile layerId nd' env"
  by (simp add: submit_and_reconcile_def try_block_node_id [of nd nd'])

text \<open>Which events each part of the effect can issue.\<close>

lemma cancel_if_pending_cases:
  "cancel_if_pending layerId p resp =
     (case narrowed p of
        None \<Rightarrow> ([], [])
      | Some b \<Rightarrow>
          ([CancelByBatchIds [b], Log Trace ''Cancelling existing preprocessor batch''],
           [([ResetCancelRequest, Dispatch (CaLayerProcessorPendingBatchIdChanged layerId None)],
             Returned)]))"
  by (cases resp)
     (simp_all add: cancel_if_pending_def cancelProcessorBatch_def Let_def split: option.splits)

lemma before_submission_events:
  "e \<in> set (before_submission layerId ca env) \<Longrightarrow>
     e = CancelActiveListeners
     \<or> e = Dispatch (CaLayerProcessedImageChanged layerId None)
     \<or> (\<exists>b. e = CancelByBatchIds [b]) \<or> (\<exists>m. e = Log Trace m)"
  by (auto simp: before_submission_def clear_if_reset_def cancel_if_pending_cases
           split: if_splits option.splits)

lemma try_block_events:
  assumes "try_block layerId nd env = (evs, ab, res)" and "e \<in> set evs"
  shows "(\<exists>b. e = Dispatch (CaLayerProcessorPendingBatchIdChanged layerId b))
       \<or> (\<exists>d. e = Dispatch (CaLayerProcessedImageChanged layerId (Some d)))
       \<or> (\<exists>n. e = GetImageDTO n) \<or> (\<exists>m. e = Log Debug m)"
  using assms
  by (auto simp: try_block_def Let_def
           split: sum.splits option.splits take_result.splits invocation_output.splits)

lemma catch_block_events:
  assumes "catch_block layerId env ab err = (evs, det)" and "e \<in> set evs"
  shows "(\<exists>b. e = CancelByBatchIds [b]) \<or> (\<exists>lv m. e = Log lv m)
       \<or> e = Dispatch (CaLayerImageChanged layerId None)
       \<or> e = Dispatch (AddToast ''queue.graphFailedToQueue'' ''error'')"
  using assms
  by (auto simp: catch_block_def cancel_if_pending_cases split: if_splits option.splits)

lemma submit_and_reconcile_no_enqueue:
  assumes mem: "e \<in> set (events (submit_and_reconcile layerId nd env))"
  shows "\<not> is_enqueue e"
proof -
  obtain evs ab res where t: "try_block layerId nd env = (evs, ab, res)"
    by (cases "try_block layerId nd env") auto
  show ?thesis
  proof (cases res)
    case (Resolved u)
    with t mem have "e \<in> set evs \<or> e = ResetEnqueueRequest"
      by (auto simp: submit_and_reconcile_def)
    then show ?thesis using try_block_events [OF t, of e] by auto
  next
    case (Rejected err)
    obtain evs' det where c: "catch_block layerId env ab err = (evs', det)"
      by (cases "catch_block layerId env ab err") auto
    with t mem Rejected have "e \<in> set evs \<or> e \<in> set evs' \<or> e = ResetEnqueueRequest"
      by (auto simp: submit_and_reconcile_def)
    then show ?thesis
      using try_block_events [OF t, of e] catch_block_events [OF c, of e] by auto
  next
    case Pending
    with t mem have "e \<in> set evs"
      by (auto simp: submit_and_reconcile_def)
    then show ?thesis using try_block_events [OF t, of e] by auto
  qed
qed

text \<open>
  A run that submitted a batch found the layer after the quiet period, and consists of the
  events before the submission, the submission, and the \<^verbatim>\<open>try\<close> statement.
\<close>

lemma submitted_run:
  assumes "submitted (effect tbl a env) nd"
  obtains l where "delay DEBOUNCE_MS (cancelled_after env) = Resolved ()"
    and "find_layer (state_after_delay env) (layerId_of a) = Some l"
    and "events (effect tbl a env) =
           before_submission (layerId_of a) (snd l) env
           @ [EnqueueBatch (enqueueBatchArg nd) ''enqueueBatch'']
           @ events (submit_and_reconcile (layerId_of a) nd env)"
    and "detached (effect tbl a env) =
           snd (cancel_if_pending (layerId_of a) (processorPendingBatchId (snd l))
                  (stale_cancel_response env))
           @ detached (submit_and_reconcile (layerId_of a) nd env)"
    and "outcome (effect tbl a env) = outcome (submit_and_reconcile (layerId_of a) nd env)"
proof -
  let ?lid = "layerId_of a"
  let ?E = "EnqueueBatch (enqueueBatchArg nd) ''enqueueBatch''"
  let ?ev0 = "[CancelActiveListeners, Log Trace ''Control Layer CA auto-process triggered'']"
  from assms have mem: "?E \<in> set (events (effect tbl a env))"
    by (simp add: submitted_def)
  have d: "delay DEBOUNCE_MS (cancelled_after env) = Resolved ()"
    using mem by (cases "delay DEBOUNCE_MS (cancelled_after env)") (auto simp: effect_def)
  obtain l where l: "find_layer (state_after_delay env) ?lid = Some l"
    using mem d by (cases "find_layer (state_after_delay env) ?lid") (auto simp: effect_def)
  let ?c = "cancel_if_pending ?lid (processorPendingBatchId (snd l)) (stale_cancel_response env)"
  let ?pre = "clear_if_reset ?lid (snd l) @ fst ?c"
  have eff: "effect tbl a env =
     (let r = process_layer tbl ?lid (snd l) env
      in \<lparr>events = ?ev0 @ events r, detached = detached r, outcome = outcome r\<rparr>)"
    using d l by (simp add: effect_def)
  from mem have mem': "?E \<in> set (events (process_layer tbl ?lid (snd l) env))"
    by (simp add: eff Let_def)
  have pre: "?E \<notin> set ?pre"
    using before_submission_events [of ?E ?lid "snd l" env]
    by (auto simp: before_submission_def)
  obtain cfg where cfg: "processorConfig (snd l) = Some cfg"
    using mem' pre by (cases "processorConfig (snd l)") (auto simp: process_layer_def Let_def)
  obtain bn where bn: "tbl (config_type cfg) = Some bn"
    using mem' pre cfg by (cases "tbl (config_type cfg)") (auto simp: process_layer_def Let_def)
  obtain nd' where nd': "bn (ca_image (snd l)) cfg = Inr nd'"
    using mem' pre cfg bn
    by (cases "bn (ca_image (snd l)) cfg") (auto simp: process_layer_def Let_def)
  have pl: "process_layer tbl ?lid (snd l) env =
      \<lparr>events = ?pre @ [EnqueueBatch (enqueueBatchArg nd') ''enqueueBatch'']
                  @ events (submit_and_reconcile ?lid nd' env),
       detached = snd ?c @ detached (submit_and_reconcile ?lid nd' env),
       outcome = outcome (submit_and_reconcile ?lid nd' env)\<rparr>"
    using cfg bn nd' by (simp add: process_layer_def Let_def)
  have "?E \<notin> set (events (submit_and_reconcile ?lid nd' env))"
    using submit_and_reconcile_no_enqueue [of ?E ?lid nd' env] by auto
  with mem' pre have "enqueueBatchArg nd = enqueueBatchArg nd'"
    by (auto simp: pl)
  then have same: "submit_and_reconcile ?lid nd' env = submit_and_reconcile ?lid nd env"
    and arg: "enqueueBatchArg nd' = enqueueBatchArg nd"
    using submit_and_reconcile_node_id [of nd' nd] enqueueBatchArg_node_id [of nd nd'] by auto
  show thesis
    using that [OF d l] by (simp add: eff pl Let_def same arg before_submission_def)
qed

text \<open>Conversely, the layer found with a configuration whose builder yields a node is submitted.\<close>

lemma submitted_intro:
  assumes "delay DEBOUNCE_MS (cancelled_after env) = Resolved ()"
    and "find_layer (state_after_delay env) (layerId_of a) = Some l"
    and "processorConfig (snd l) = Some cfg"
    and "tbl (config_type cfg) = Some buildNode"
    and "buildNode (ca_image (snd l)) cfg = Inr nd"
  shows "submitted (effect tbl a env) nd"
  using assms by (simp add: submitted_def effect_def process_layer_def Let_def)

lemma try_block_aborted_during_enqueue:
  assumes "abort_during_enqueue env"
  shows "\<exists>evs err. try_block layerId nd env = (evs, True, Rejected err)"
proof (cases "enqueue_response env")
  case (Inl e)
  with assms show ?thesis by (simp add: try_block_def)
next
  case (Inr x)
  with assms show ?thesis
    by (cases "narrowed x") (simp_all add: try_block_def)
qed

text \<open>The scenario of the specification submits the node \<open>N1\<close>.\<close>

lemma scenario_submitted: "submitted (effect canny_only trigger_L1 scenario) node_N1"
  by (simp add: submitted_def run_defs input_defs)

subsection \<open>The image or the configuration was reset\<close>

text \<open>
  C1 states that, when the layer is found without an image or without a processor
  configuration, the effect clears the processed image and stops. The effect does clear the
  processed image, but line 75 closes the \<^verbatim>\<open>if\<close> without a \<^verbatim>\<open>return\<close>: at the input
  \<open>config_reset\<close> (configuration \<^verbatim>\<open>null\<close>, batch \<open>B0\<close> pending) it goes on to request the
  cancellation of \<open>B0\<close>, and then throws a \<^verbatim>\<open>TypeError\<close> at \<^verbatim>\<open>config.type\<close>, outside the
  \<^verbatim>\<open>try\<close> block.
\<close>

theorem reset_config_falls_through:
  "effect canny_only (ProcessorConfigChangedTrigger ''L1'' None) config_reset =
     \<lparr>events = [CancelActiveListeners,
                Log Trace ''Control Layer CA auto-process triggered'',
                Dispatch (CaLayerProcessedImageChanged ''L1'' None),
                CancelByBatchIds [''B0''],
                Log Trace ''Cancelling existing preprocessor batch''],
      detached = [([ResetCancelRequest,
                    Dispatch (CaLayerProcessorPendingBatchIdChanged ''L1'' None)], Returned)],
      outcome = Threw (TypeError ''Cannot read properties of null (reading 'type')'')\<rparr>"
  by (simp add: run_defs input_defs config_reset_def)

text \<open>
  The same holds of every layer found without a configuration: the effect never returns
  normally there.
\<close>

lemma reset_config_throws:
  assumes "delay DEBOUNCE_MS (cancelled_after env) = Resolved ()"
    and "find_layer (state_after_delay env) (layerId_of a) = Some l"
    and "processorConfig (snd l) = None"
  shows "events (effect tbl a env) = before_submission (layerId_of a) (snd l) env
       \<and> Dispatch (CaLayerProcessedImageChanged (layerId_of a) None) \<in> set (events (effect tbl a env))
       \<and> outcome (effect tbl a env)
           = Threw (TypeError ''Cannot read properties of null (reading 'type')'')"
  using assms
  by (simp add: effect_def process_layer_def before_submission_def clear_if_reset_def Let_def)

text \<open>
  With the image reset and the configuration present, the node builder is called on
  \<^verbatim>\<open>null\<close>. A builder that reads the image throws; with a builder that does not, the batch
  is submitted.
\<close>

lemma reset_image_reaches_buildNode:
  "outcome (effect canny_only (ImageChangedTrigger ''L1'' None) image_reset)
     = Threw (TypeError ''Cannot read properties of null (reading 'name')'')"
  by (simp add: run_defs input_defs image_reset_def)

lemma reset_image_submitted_by_lenient_builder:
  "filter is_enqueue (events (effect lenient_table (ImageChangedTrigger ''L1'' None) image_reset))
     = [EnqueueBatch (enqueueBatchArg \<lparr>node_id = ''N1'', node_type = ''canny_image_processor'',
          node_image = None, is_intermediate = False\<rparr>) ''enqueueBatch'']"
  by (simp add: run_defs input_defs image_reset_def)

subsection \<open>Completion\<close>

text \<open>
  C2. In a run that submitted a batch, when the enqueue request resolves with a batch id,
  \<^verbatim>\<open>take\<close> resolves with a completion event (of that batch and of the processor node) whose
  result is an image output, and the descriptor of that image is fetched, the effect ends by
  dispatching the descriptor as the layer's processed image and \<^verbatim>\<open>null\<close> as its pending
  batch id, and returns.
\<close>

theorem completion_reconciles:
  assumes "submitted (effect tbl a env) nd"
    and "enqueue_response env = Inr (Some b)" and "b \<noteq> []"
    and "take_action (abort_during_enqueue env) (completion_of b (node_id nd))
           (inbound_actions env) = TakeResolved d"
    and "inv_result d = ImageOutput image_name"
    and "image_fetch env = Inr (Some imageDTO)"
  shows "(\<exists>pre. events (effect tbl a env) =
            pre @ [GetImageDTO image_name,
                   Log Debug ''ControlNet image processed'',
                   Dispatch (CaLayerProcessedImageChanged (layerId_of a) (Some imageDTO)),
                   Dispatch (CaLayerProcessorPendingBatchIdChanged (layerId_of a) None),
                   ResetEnqueueRequest])
       \<and> outcome (effect tbl a env) = Returned"
proof -
  have t: "try_block (layerId_of a) nd env =
      ([Dispatch (CaLayerProcessorPendingBatchIdChanged (layerId_of a) (Some b)),
        Log Debug ''queue.graphQueued'', GetImageDTO image_name,
        Log Debug ''ControlNet image processed'',
        Dispatch (CaLayerProcessedImageChanged (layerId_of a) (Some imageDTO)),
        Dispatch (CaLayerProcessorPendingBatchIdChanged (layerId_of a) None)],
       abort_during_fetch env, Resolved ())"
    using assms(2-6) by (simp add: try_block_def)
  from assms(1) show ?thesis
  proof (rule submitted_run)
    fix l
    assume "events (effect tbl a env) =
           before_submission (layerId_of a) (snd l) env
           @ [EnqueueBatch (enqueueBatchArg nd) ''enqueueBatch'']
           @ events (submit_and_reconcile (layerId_of a) nd env)"
      and "outcome (effect tbl a env) = outcome (submit_and_reconcile (layerId_of a) nd env)"
    then show ?thesis
      by (simp add: submit_and_reconcile_def t)
  qed
qed

theorem completion_reconciles_witness:
  "submitted (effect canny_only trigger_L1 scenario) node_N1
   \<and> take_action (abort_during_enqueue scenario) (completion_of ''B1'' (node_id node_N1))
        (inbound_actions scenario) = TakeResolved completion_B1
   \<and> (\<exists>pre. events (effect canny_only trigger_L1 scenario) =
          pre @ [GetImageDTO ''out.png'',
                 Log Debug ''ControlNet image processed'',
                 Dispatch (CaLayerProcessedImageChanged ''L1'' (Some (ImageDTO ''out.png''))),
                 Dispatch (CaLayerProcessorPendingBatchIdChanged ''L1'' None),
                 ResetEnqueueRequest])
   \<and> outcome (effect canny_only trigger_L1 scenario) = Returned"
proof -
  have h2: "enqueue_response scenario = Inr (Some ''B1'')"
    by (simp add: scenario_def)
  have h3: "''B1'' \<noteq> []" by simp
  have h4: "take_action (abort_during_enqueue scenario) (completion_of ''B1'' (node_id node_N1))
              (inbound_actions scenario) = TakeResolved completion_B1"
    by (simp add: input_defs)
  have h5: "inv_result completion_B1 = ImageOutput ''out.png''"
    by (simp add: completion_B1_def)
  have h6: "image_fetch scenario = Inr (Some (ImageDTO ''out.png''))"
    by (simp add: scenario_def)
  show ?thesis
    using scenario_submitted h4
      completion_reconciles [OF scenario_submitted h2 h3 h4 h5 h6]
    by (simp add: trigger_L1_def)
qed

subsection \<open>Failures\<close>



subsection \<open>A batch is already pending\<close>

text \<open>
  C4. In a run that submitted a batch while the layer found after the quiet period had a
  pending batch id \<open>b\<close>, the request cancelling \<open>b\<close> is issued before the enqueue request
  (the only enqueue request of the run); the helper's continuation, detached from the run,
  dispatches the pending batch id \<^verbatim>\<open>null\<close> and ends normally, also when the cancelling
  request was rejected.
\<close>

theorem stale_batch_cancelled_first:
  assumes "submitted (effect tbl a env) nd"
    and "pending_batch_id_of (state_after_delay env) (layerId_of a) = Some b"
    and "b \<noteq> []"
  shows "(\<exists>pre post. events (effect tbl a env) =
            pre @ [CancelByBatchIds [b], Log Trace ''Cancelling existing preprocessor batch'',
                   EnqueueBatch (enqueueBatchArg nd) ''enqueueBatch''] @ post
            \<and> (\<forall>e \<in> set pre \<union> set post. \<not> is_enqueue e))
       \<and> ([ResetCancelRequest,
            Dispatch (CaLayerProcessorPendingBatchIdChanged (layerId_of a) None)], Returned)
            \<in> set (detached (effect tbl a env))
       \<and> continuation (cancelProcessorBatch (layerId_of a) b (Inl error)) =
            [ResetCancelRequest,
             Dispatch (CaLayerProcessorPendingBatchIdChanged (layerId_of a) None)]
       \<and> settled (cancelProcessorBatch (layerId_of a) b (Inl error)) = Returned"
proof -
  let ?lid = "layerId_of a"
  from assms(1) show ?thesis
  proof (rule submitted_run)
    fix l
    assume l: "find_layer (state_after_delay env) ?lid = Some l"
      and ev: "events (effect tbl a env) =
           before_submission ?lid (snd l) env
           @ [EnqueueBatch (enqueueBatchArg nd) ''enqueueBatch'']
           @ events (submit_and_reconcile ?lid nd env)"
      and det: "detached (effect tbl a env) =
           snd (cancel_if_pending ?lid (processorPendingBatchId (snd l))
                  (stale_cancel_response env))
           @ detached (submit_and_reconcile ?lid nd env)"
    from l assms(2) have p: "processorPendingBatchId (snd l) = Some b"
      by (simp add: pending_batch_id_of_def)
    let ?pre = "[CancelActiveListeners, Log Trace ''Control Layer CA auto-process triggered'']
           @ clear_if_reset ?lid (snd l)"
    let ?post = "events (submit_and_reconcile ?lid nd env)"
    have c: "cancel_if_pending ?lid (Some b) (stale_cancel_response env) =
        ([CancelByBatchIds [b], Log Trace ''Cancelling existing preprocessor batch''],
         [([ResetCancelRequest, Dispatch (CaLayerProcessorPendingBatchIdChanged ?lid None)],
           Returned)])"
      using assms(3) by (simp add: cancel_if_pending_cases)
    have 1: "events (effect tbl a env) =
            ?pre @ [CancelByBatchIds [b], Log Trace ''Cancelling existing preprocessor batch'',
                   EnqueueBatch (enqueueBatchArg nd) ''enqueueBatch''] @ ?post"
      by (simp add: ev before_submission_def p c)
    have 2: "\<forall>e \<in> set ?pre \<union> set ?post. \<not> is_enqueue e"
      using submit_and_reconcile_no_enqueue [of _ ?lid nd env]
      by (auto simp: clear_if_reset_def)
    have 3: "([ResetCancelRequest,
            Dispatch (CaLayerProcessorPendingBatchIdChanged ?lid None)], Returned)
            \<in> set (detached (effect tbl a env))"
      by (simp add: det p c)
    have 4: "continuation (cancelProcessorBatch ?lid b (Inl error)) =
            [ResetCancelRequest, Dispatch (CaLayerProcessorPendingBatchIdChanged ?lid None)]
       \<and> settled (cancelProcessorBatch ?lid b (Inl error)) = Returned"
      by (simp add: cancelProcessorBatch_def)
    from 1 2 3 4 show ?thesis by blast
  qed
qed

theorem stale_batch_cancelled_first_witness:
  "submitted (effect canny_only trigger_L1 stale_pending) node_N1
   \<and> pending_batch_id_of (state_after_delay stale_pending) ''L1'' = Some ''B0''
   \<and> stale_cancel_response stale_pending = Inl (FetchBaseQueryError (JNum 404) JOpaque)
   \<and> (\<exists>pre post. events (effect canny_only trigger_L1 stale_pending) =
          pre @ [CancelByBatchIds [''B0''], Log Trace ''Cancelling existing preprocessor batch'',
                 EnqueueBatch (enqueueBatchArg node_N1) ''enqueueBatch''] @ post
          \<and> (\<forall>e \<in> set pre \<union> set post. \<not> is_enqueue e))
   \<and> ([ResetCancelRequest, Dispatch (CaLayerProcessorPendingBatchIdChanged ''L1'' None)], Returned)
        \<in> set (detached (effect canny_only trigger_L1 stale_pending))"
proof -
  have h1: "submitted (effect canny_only trigger_L1 stale_pending) node_N1"
    by (simp add: submitted_def run_defs input_defs stale_pending_def)
  have h2: "pending_batch_id_of (state_after_delay stale_pending) (layerId_of trigger_L1)
              = Some ''B0''"
    by (simp add: pending_batch_id_of_def find_layer_def input_defs stale_pending_def)
  have h3: "''B0'' \<noteq> []" by simp
  have h4: "stale_cancel_response stale_pending = Inl (FetchBaseQueryError (JNum 404) JOpaque)"
    by (simp add: stale_pending_def scenario_def)
  show ?thesis
    using h1 h2 h4 stale_batch_cancelled_first [OF h1 h2 h3]
    by (simp add: trigger_L1_def)
qed

subsection \<open>Contract violations\<close>

text \<open>
  C5. In a run that submitted a batch, each of the three contract violations (the enqueue
  request resolves without a batch id; the completion event's result is not an image output;
  the fetch of the image descriptor yields \<^verbatim>\<open>null\<close>) makes the \<^verbatim>\<open>try\<close> block fail with
  an assertion error. The block has dispatched no processed image by then, the whole run
  dispatches no image descriptor as processed image, and, unless the listener was cancelled
  in the meantime, the failure is logged as an error and shown as an error toast.
\<close>

theorem contract_violations_assert:
  assumes "submitted (effect tbl a env) nd"
    and "(\<exists>x. enqueue_response env = Inr x \<and> narrowed x = None)
       \<or> (\<exists>b d. enqueue_response env = Inr (Some b) \<and> b \<noteq> []
              \<and> take_action (abort_during_enqueue env) (completion_of b (node_id nd))
                    (inbound_actions env) = TakeResolved d
              \<and> ((\<exists>t. inv_result d = NonImageOutput t)
                  \<or> (\<exists>n. inv_result d = ImageOutput n) \<and> image_fetch env = Inr None))"
  shows "\<exists>evs aborted msg.
           try_block (layerId_of a) nd env = (evs, aborted, Rejected (AssertionError msg))
         \<and> (\<forall>l x. Dispatch (CaLayerProcessedImageChanged l x) \<notin> set evs)
         \<and> (\<forall>l dto. Dispatch (CaLayerProcessedImageChanged l (Some dto))
                       \<notin> set (events (effect tbl a env)))
         \<and> (\<not> aborted \<longrightarrow>
               Log Error ''queue.graphFailedToQueue'' \<in> set (events (effect tbl a env))
               \<and> Dispatch (AddToast ''queue.graphFailedToQueue'' ''error'')
                    \<in> set (events (effect tbl a env)))"
proof -
  let ?lid = "layerId_of a"
  from assms(2) obtain evs aborted msg
    where t: "try_block ?lid nd env = (evs, aborted, Rejected (AssertionError msg))"
      and evs: "set evs \<subseteq> {Dispatch (CaLayerProcessorPendingBatchIdChanged ?lid b) | b. True}
                  \<union> {Log Debug m | m. True} \<union> {GetImageDTO n | n. True}"
    by (auto simp: try_block_def Let_def)
  from assms(1) show ?thesis
  proof (rule submitted_run)
    fix l
    let ?pre = "before_submission ?lid (snd l) env"
    assume ev: "events (effect tbl a env) =
           ?pre @ [EnqueueBatch (enqueueBatchArg nd) ''enqueueBatch'']
           @ events (submit_and_reconcile ?lid nd env)"
    obtain evs' det where c: "catch_block ?lid env aborted (AssertionError msg) = (evs', det)"
      by (cases "catch_block ?lid env aborted (AssertionError msg)") auto
    have sub: "events (submit_and_reconcile ?lid nd env) = evs @ evs' @ [ResetEnqueueRequest]"
      by (simp add: submit_and_reconcile_def t c)
    have pre: "\<And>l dto. Dispatch (CaLayerProcessedImageChanged l (Some dto)) \<notin> set ?pre"
      using before_submission_events [of _ ?lid "snd l" env] by blast
    have evs': "\<And>l x. Dispatch (CaLayerProcessedImageChanged l x) \<notin> set evs'"
      using catch_block_events [OF c] by blast
    have evs_none: "\<And>l x. Dispatch (CaLayerProcessedImageChanged l x) \<notin> set evs"
      using evs by auto
    have loud: "Log Error ''queue.graphFailedToQueue'' \<in> set evs'
        \<and> Dispatch (AddToast ''queue.graphFailedToQueue'' ''error'') \<in> set evs'"
      if "\<not> aborted"
      using c that assertion_not_forbidden [of msg]
      by (auto simp: catch_block_def forbidden_check)
    have "\<forall>l dto. Dispatch (CaLayerProcessedImageChanged l (Some dto))
                       \<notin> set (events (effect tbl a env))"
      using pre evs' evs_none unfolding ev sub by auto
    moreover have "\<not> aborted \<longrightarrow>
               Log Error ''queue.graphFailedToQueue'' \<in> set (events (effect tbl a env))
               \<and> Dispatch (AddToast ''queue.graphFailedToQueue'' ''error'')
                    \<in> set (events (effect tbl a env))"
      using loud unfolding ev sub by auto
    ultimately show ?thesis
      using t evs_none by blast
  qed
qed

theorem contract_violations_assert_witness:
  "(try_block ''L1'' node_N1 no_batch_id =
      ([], False, Rejected (AssertionError ''Batch ID not returned from queue''))
    \<and> (\<forall>l dto. Dispatch (CaLayerProcessedImageChanged l (Some dto))
                 \<notin> set (events (effect canny_only trigger_L1 no_batch_id)))
    \<and> Dispatch (AddToast ''queue.graphFailedToQueue'' ''error'')
         \<in> set (events (effect canny_only trigger_L1 no_batch_id)))
   \<and> (try_block ''L1'' node_N1 latents_result =
      ([Dispatch (CaLayerProcessorPendingBatchIdChanged ''L1'' (Some ''B1'')),
        Log Debug ''queue.graphQueued''],
       False, Rejected (AssertionError ''Processor did not return an image output''))
    \<and> (\<forall>l dto. Dispatch (CaLayerProcessedImageChanged l (Some dto))
                 \<notin> set (events (effect canny_only trigger_L1 latents_result)))
    \<and> Dispatch (AddToast ''queue.graphFailedToQueue'' ''error'')
         \<in> set (events (effect canny_only trigger_L1 latents_result)))
   \<and> (try_block ''L1'' node_N1 descriptor_missing =
      ([Dispatch (CaLayerProcessorPendingBatchIdChanged ''L1'' (Some ''B1'')),
        Log Debug ''queue.graphQueued'', GetImageDTO ''out.png''],
       False, Rejected (AssertionError ''Failed to fetch processor output's image DTO''))
    \<and> (\<forall>l dto. Dispatch (CaLayerProcessedImageChanged l (Some dto))
                 \<notin> set (events (effect canny_only trigger_L1 descriptor_missing)))
    \<and> Dispatch (AddToast ''queue.graphFailedToQueue'' ''error'')
         \<in> set (events (effect canny_only trigger_L1 descriptor_missing)))"
proof -
  have s1: "submitted (effect canny_only trigger_L1 no_batch_id) node_N1"
    by (simp add: submitted_def run_defs input_defs no_batch_id_def)
  have v1: "(\<exists>x. enqueue_response no_batch_id = Inr x \<and> narrowed x = None)
       \<or> (\<exists>b d. enqueue_response no_batch_id = Inr (Some b) \<and> b \<noteq> []
              \<and> take_action (abort_during_enqueue no_batch_id) (completion_of b (node_id node_N1))
                    (inbound_actions no_batch_id) = TakeResolved d
              \<and> ((\<exists>t. inv_result d = NonImageOutput t)
                  \<or> (\<exists>n. inv_result d = ImageOutput n) \<and> image_fetch no_batch_id = Inr None))"
    by (simp add: no_batch_id_def scenario_def)
  have t1: "try_block (layerId_of trigger_L1) node_N1 no_batch_id =
     ([], False, Rejected (AssertionError ''Batch ID not returned from queue''))"
    by (simp add: try_block_def input_defs no_batch_id_def)
  from contract_violations_assert [OF s1 v1] t1
  have c1: "(\<forall>l dto. Dispatch (CaLayerProcessedImageChanged l (Some dto))
                 \<notin> set (events (effect canny_only trigger_L1 no_batch_id)))
    \<and> Dispatch (AddToast ''queue.graphFailedToQueue'' ''error'')
         \<in> set (events (effect canny_only trigger_L1 no_batch_id))"
    by auto
  have s2: "submitted (effect canny_only trigger_L1 latents_result) node_N1"
    by (simp add: submitted_def run_defs input_defs latents_result_def)
  have v2: "(\<exists>x. enqueue_response latents_result = Inr x \<and> narrowed x = None)
       \<or> (\<exists>b d. enqueue_response latents_result = Inr (Some b) \<and> b \<noteq> []
              \<and> take_action (abort_during_enqueue latents_result)
                    (completion_of b (node_id node_N1))
                    (inbound_actions latents_result) = TakeResolved d
              \<and> ((\<exists>t. inv_result d = NonImageOutput t)
                  \<or> (\<exists>n. inv_result d = ImageOutput n) \<and> image_fetch latents_result = Inr None))"
    by (simp add: latents_result_def input_defs)
  have t2: "try_block (layerId_of trigger_L1) node_N1 latents_result =
     ([Dispatch (CaLayerProcessorPendingBatchIdChanged ''L1'' (Some ''B1'')),
       Log Debug ''queue.graphQueued''],
      False, Rejected (AssertionError ''Processor did not return an image output''))"
    by (simp add: try_block_def input_defs latents_result_def)
  from contract_violations_assert [OF s2 v2] t2
  have c2: "(\<forall>l dto. Dispatch (CaLayerProcessedImageChanged l (Some dto))
                 \<notin> set (events (effect canny_only trigger_L1 latents_result)))
    \<and> Dispatch (AddToast ''queue.graphFailedToQueue'' ''error'')
         \<in> set (events (effect canny_only trigger_L1 latents_result))"
    by auto
  have s3: "submitted (effect canny_only trigger_L1 descriptor_missing) node_N1"
    by (simp add: submitted_def run_defs input_defs descriptor_missing_def)
  have v3: "(\<exists>x. enqueue_response descriptor_missing = Inr x \<and> narrowed x = None)
       \<or> (\<exists>b d. enqueue_response descriptor_missing = Inr (Some b) \<and> b \<noteq> []
              \<and> take_action (abort_during_enqueue descriptor_missing)
                    (completion_of b (node_id node_N1))
                    (inbound_actions descriptor_missing) = TakeResolved d
              \<and> ((\<exists>t. inv_result d = NonImageOutput t)
                  \<or> (\<exists>n. inv_result d = ImageOutput n)
                     \<and> image_fetch descriptor_missing = Inr None))"
    by (simp add: descriptor_missing_def input_defs)
  have t3: "try_block (layerId_of trigger_L1) node_N1 descriptor_missing =
     ([Dispatch (CaLayerProcessorPendingBatchIdChanged ''L1'' (Some ''B1'')),
       Log Debug ''queue.graphQueued'', GetImageDTO ''out.png''],
      False, Rejected (AssertionError ''Failed to fetch processor output's image DTO''))"
    by (simp add: try_block_def input_defs descriptor_missing_def)
  from contract_violations_assert [OF s3 v3] t3
  have c3: "(\<forall>l dto. Dispatch (CaLayerProcessedImageChanged l (Some dto))
                 \<notin> set (events (effect canny_only trigger_L1 descriptor_missing)))
    \<and> Dispatch (AddToast ''queue.graphFailedToQueue'' ''error'')
         \<in> set (events (effect canny_only trigger_L1 descriptor_missing))"
    by auto
  have l: "layerId_of trigger_L1 = ''L1''"
    by (simp add: trigger_L1_def)
  show ?thesis
    using t1 t2 t3 c1 c2 c3 unfolding l by blast
qed

subsection \<open>Two triggers within the quiet period\<close>

text \<open>Every instance of the effect cancels the active listeners on its trigger (line 54).\<close>

lemma effect_cancels_on_trigger: "cancels_on_trigger (effect tbl a env)"
  by (simp add: cancels_on_trigger_def effect_def Let_def split: settle.splits option.splits)

text \<open>
  C6. Of two matching actions at times \<open>t1 \<le> t2 < t1 + 300\<close>, the second one's instance
  starts by calling \<^verbatim>\<open>cancelActiveListeners()\<close>, and so the first one's instance is
  cancelled in its \<^verbatim>\<open>delay\<close>: it ends with the \<^verbatim>\<open>TaskAbortError\<close>, has dispatched nothing
  to the store, made no request and detached nothing. The second instance does the work: if
  it is not cancelled during its own delay and finds its layer with a configuration whose
  builder yields a node, it submits the batch of that node.
\<close>

theorem superseded_in_quiet_period:
  assumes "t1 \<le> t2" and "t2 < t1 + 300"
  shows "(\<exists>rest. events (snd (two_triggers tbl a1 t1 env1 a2 t2 env2))
                    = CancelActiveListeners # rest)
       \<and> outcome (fst (two_triggers tbl a1 t1 env1 a2 t2 env2)) = Threw TaskAbortError
       \<and> detached (fst (two_triggers tbl a1 t1 env1 a2 t2 env2)) = []
       \<and> filter (\<lambda>e. is_state_write e \<or> is_network_call e)
            (events (fst (two_triggers tbl a1 t1 env1 a2 t2 env2))) = []
       \<and> (delay DEBOUNCE_MS (cancelled_after env2) = Resolved ()
            \<longrightarrow> find_layer (state_after_delay env2) (layerId_of a2) = Some l
            \<longrightarrow> processorConfig (snd l) = Some cfg
            \<longrightarrow> tbl (config_type cfg) = Some buildNode
            \<longrightarrow> buildNode (ca_image (snd l)) cfg = Inr nd
            \<longrightarrow> submitted (snd (two_triggers tbl a1 t1 env1 a2 t2 env2)) nd)"
proof -
  have c: "cancels_on_trigger (effect tbl a2 env2)"
    by (rule effect_cancels_on_trigger)
  then have starts: "\<exists>rest. events (effect tbl a2 env2) = CancelActiveListeners # rest"
    by (cases "events (effect tbl a2 env2)") (simp_all add: cancels_on_trigger_def)
  from c have pair: "two_triggers tbl a1 t1 env1 a2 t2 env2 =
      (effect tbl a1 (env1\<lparr>cancelled_after := Some (t2 - t1)\<rparr>), effect tbl a2 env2)"
    by (simp add: two_triggers_def Let_def)
  from assms have "t2 - t1 < DEBOUNCE_MS" by (simp add: DEBOUNCE_MS_def)
  then have d: "delay DEBOUNCE_MS (cancelled_after (env1\<lparr>cancelled_after := Some (t2 - t1)\<rparr>))
                  = Rejected TaskAbortError"
    by (simp add: delay_def)
  have first: "effect tbl a1 (env1\<lparr>cancelled_after := Some (t2 - t1)\<rparr>) =
      \<lparr>events = [CancelActiveListeners, Log Trace ''Control Layer CA auto-process triggered''],
       detached = [], outcome = Threw TaskAbortError\<rparr>"
    unfolding effect_def Let_def d by simp
  have second: "submitted (effect tbl a2 env2) nd"
    if "delay DEBOUNCE_MS (cancelled_after env2) = Resolved ()"
      and "find_layer (state_after_delay env2) (layerId_of a2) = Some l"
      and "processorConfig (snd l) = Some cfg"
      and "tbl (config_type cfg) = Some buildNode"
      and "buildNode (ca_image (snd l)) cfg = Inr nd"
    using that by (rule submitted_intro)
  show ?thesis
    using first second starts by (simp add: pair)
qed

theorem superseded_in_quiet_period_witness:
  "(100::nat) \<le> 250 \<and> (250::nat) < 100 + 300
   \<and> cancels_on_trigger (snd (two_triggers canny_only trigger_L1 100 scenario trigger_L1 250 scenario))
   \<and> events (fst (two_triggers canny_only trigger_L1 100 scenario trigger_L1 250 scenario))
       = [CancelActiveListeners, Log Trace ''Control Layer CA auto-process triggered'']
   \<and> outcome (fst (two_triggers canny_only trigger_L1 100 scenario trigger_L1 250 scenario))
       = Threw TaskAbortError
   \<and> submitted (snd (two_triggers canny_only trigger_L1 100 scenario trigger_L1 250 scenario))
       node_N1"
proof -
  have h1: "(100::nat) \<le> 250" by simp
  have h2: "(250::nat) < 100 + 300" by simp
  have d: "delay DEBOUNCE_MS (cancelled_after scenario) = Resolved ()"
    by (simp add: delay_def scenario_def)
  have l: "find_layer (state_after_delay scenario) (layerId_of trigger_L1) = Some (''L1'', layer_L1)"
    by (simp add: find_layer_def scenario_def trigger_L1_def)
  have c: "processorConfig (snd (''L1'', layer_L1)) = Some canny_config"
    by (simp add: layer_L1_def)
  have b: "canny_only (config_type canny_config) = Some canny_buildNode"
    by (simp add: canny_only_def canny_config_def)
  have n: "canny_buildNode (ca_image (snd (''L1'', layer_L1))) canny_config = Inr node_N1"
    by (simp add: layer_L1_def canny_config_def node_N1_def)
  have k: "cancels_on_trigger (effect canny_only trigger_L1 scenario)"
    by (simp add: cancels_on_trigger_def run_defs input_defs)
  have pair: "two_triggers canny_only trigger_L1 100 scenario trigger_L1 250 scenario =
      (effect canny_only trigger_L1 (scenario\<lparr>cancelled_after := Some (250 - 100)\<rparr>),
       effect canny_only trigger_L1 scenario)"
    using k by (simp add: two_triggers_def Let_def)
  have e: "events (fst (two_triggers canny_only trigger_L1 100 scenario trigger_L1 250 scenario))
       = [CancelActiveListeners, Log Trace ''Control Layer CA auto-process triggered'']"
    unfolding pair by (simp add: effect_def delay_def DEBOUNCE_MS_def)
  have k': "cancels_on_trigger
       (snd (two_triggers canny_only trigger_L1 100 scenario trigger_L1 250 scenario))"
    unfolding pair using k by simp
  from superseded_in_quiet_period [OF h1 h2, of canny_only trigger_L1 scenario trigger_L1 scenario
        "(''L1'', layer_L1)" canny_config canny_buildNode node_N1] d l c b n
  have "outcome (fst (two_triggers canny_only trigger_L1 100 scenario trigger_L1 250 scenario))
          = Threw TaskAbortError
      \<and> submitted (snd (two_triggers canny_only trigger_L1 100 scenario trigger_L1 250 scenario))
          node_N1"
    by blast
  with e k' show ?thesis by simp
qed

subsection \<open>Cancellation after the submission\<close>

text \<open>
  C7. In a run that submitted a batch, when the listener is cancelled while the effect
  awaits the enqueue request, or while it waits in \<^verbatim>\<open>take\<close>, the effect returns (it does not
  throw). It reads the layer's pending batch id from the state at that time: if there is
  one, the last request of the run is the cancellation of that batch, and the helper's
  continuation, which dispatches the pending batch id \<^verbatim>\<open>null\<close>, is detached; if there is
  none, nothing is issued after the \<^verbatim>\<open>try\<close> block but the trace line.
\<close>

theorem abort_cancels_current_batch:
  assumes "submitted (effect tbl a env) nd"
    and "abort_during_enqueue env
       \<or> (\<exists>b. enqueue_response env = Inr (Some b) \<and> b \<noteq> []
              \<and> take_action False (completion_of b (node_id nd)) (inbound_actions env)
                  = TakeRejected)"
  shows "outcome (effect tbl a env) = Returned
       \<and> (case narrowed (pending_batch_id_of (state_at_catch env) (layerId_of a)) of
            Some p \<Rightarrow>
              (\<exists>pre. events (effect tbl a env) =
                 pre @ [CancelByBatchIds [p], Log Trace ''Cancelling existing preprocessor batch'',
                        Log Trace ''Control Adapter preprocessor cancelled'',
                        ResetEnqueueRequest])
              \<and> (\<exists>det. detached (effect tbl a env) =
                    det @ [([ResetCancelRequest,
                             Dispatch (CaLayerProcessorPendingBatchIdChanged (layerId_of a) None)],
                            Returned)])
          | None \<Rightarrow>
              (\<exists>pre. events (effect tbl a env) =
                 pre @ [EnqueueBatch (enqueueBatchArg nd) ''enqueueBatch'']
                 @ fst (try_block (layerId_of a) nd env)
                 @ [Log Trace ''Control Adapter preprocessor cancelled'', ResetEnqueueRequest]))"
proof -
  let ?lid = "layerId_of a"
  have "\<exists>evs err. try_block ?lid nd env = (evs, True, Rejected err)"
  proof (cases "abort_during_enqueue env")
    case True
    then show ?thesis by (rule try_block_aborted_during_enqueue)
  next
    case False
    with assms(2) show ?thesis
      by (auto simp: try_block_def)
  qed
  then obtain evs err where t: "try_block ?lid nd env = (evs, True, Rejected err)"
    by blast
  let ?c = "cancel_if_pending ?lid (pending_batch_id_of (state_at_catch env) ?lid)
              (abort_cancel_response env)"
  have sub: "submit_and_reconcile ?lid nd env =
      \<lparr>events = evs @ fst ?c @ [Log Trace ''Control Adapter preprocessor cancelled'',
                                ResetEnqueueRequest],
       detached = snd ?c, outcome = Returned\<rparr>"
    by (simp add: submit_and_reconcile_def t catch_block_def split: prod.splits)
  from assms(1) show ?thesis
  proof (rule submitted_run)
    fix l
    assume ev: "events (effect tbl a env) =
           before_submission ?lid (snd l) env
           @ [EnqueueBatch (enqueueBatchArg nd) ''enqueueBatch'']
           @ events (submit_and_reconcile ?lid nd env)"
      and det: "detached (effect tbl a env) =
           snd (cancel_if_pending ?lid (processorPendingBatchId (snd l))
                  (stale_cancel_response env))
           @ detached (submit_and_reconcile ?lid nd env)"
      and out: "outcome (effect tbl a env) = outcome (submit_and_reconcile ?lid nd env)"
    show ?thesis
    proof (cases "narrowed (pending_batch_id_of (state_at_catch env) ?lid)")
      case None
      then show ?thesis
        by (simp add: ev det out sub t cancel_if_pending_cases)
    next
      case (Some p)
      then show ?thesis
        by (simp add: ev det out sub t cancel_if_pending_cases)
    qed
  qed
qed

theorem abort_cancels_current_batch_witness:
  "submitted (effect canny_only trigger_L1 cancelled_while_waiting) node_N1
   \<and> enqueue_response cancelled_while_waiting = Inr (Some ''B1'')
   \<and> take_action False (completion_of ''B1'' (node_id node_N1))
        (inbound_actions cancelled_while_waiting) = TakeRejected
   \<and> pending_batch_id_of (state_at_catch cancelled_while_waiting) ''L1'' = Some ''B2''
   \<and> outcome (effect canny_only trigger_L1 cancelled_while_waiting) = Returned
   \<and> (\<exists>pre. events (effect canny_only trigger_L1 cancelled_while_waiting) =
          pre @ [CancelByBatchIds [''B2''], Log Trace ''Cancelling existing preprocessor batch'',
                 Log Trace ''Control Adapter preprocessor cancelled'', ResetEnqueueRequest])"
proof -
  have h1: "submitted (effect canny_only trigger_L1 cancelled_while_waiting) node_N1"
    by (simp add: submitted_def run_defs input_defs cancelled_while_waiting_def)
  have e: "enqueue_response cancelled_while_waiting = Inr (Some ''B1'')"
    by (simp add: cancelled_while_waiting_def scenario_def)
  have t: "take_action False (completion_of ''B1'' (node_id node_N1))
             (inbound_actions cancelled_while_waiting) = TakeRejected"
    by (simp add: cancelled_while_waiting_def input_defs)
  have h2: "abort_during_enqueue cancelled_while_waiting
       \<or> (\<exists>b. enqueue_response cancelled_while_waiting = Inr (Some b) \<and> b \<noteq> []
              \<and> take_action False (completion_of b (node_id node_N1))
                  (inbound_actions cancelled_while_waiting) = TakeRejected)"
    using e t by simp
  have p: "pending_batch_id_of (state_at_catch cancelled_while_waiting) (layerId_of trigger_L1)
             = Some ''B2''"
    by (simp add: pending_batch_id_of_def find_layer_def cancelled_while_waiting_def input_defs)
  show ?thesis
    using h1 e t p abort_cancels_current_batch [OF h1 h2]
    by (simp add: trigger_L1_def)
qed

subsection \<open>The endpoints of the app-info client\<close>

text \<open>
  C8, as the code has it. Every query of \<^verbatim>\<open>appInfoApi\<close> provides the tag
  \<^verbatim>\<open>FetchOnReconnect\<close>. The mutations are three (clear, enable and disable the invocation
  cache), and each invalidates the tag \<^verbatim>\<open>InvocationCacheStatus\<close>, which the query of the
  invocation-cache status provides.
\<close>

theorem appInfo_tags:
  "(\<forall>e \<in> set appInfoApi. kind e = Query \<longrightarrow> ''FetchOnReconnect'' \<in> set (providesTags e))
   \<and> filter is_mutation appInfoApi
       = [clearInvocationCache, enableInvocationCache, disableInvocationCache]
   \<and> (\<forall>e \<in> set appInfoApi. kind e = Mutation \<longrightarrow>
          ''InvocationCacheStatus'' \<in> set (invalidatesTags e))
   \<and> ''InvocationCacheStatus'' \<in> set (providesTags getInvocationCacheStatus)"
  by (simp add: appInfoApi_def getAppVersion_def getAppDeps_def getAppConfig_def
        getInvocationCacheStatus_def clearInvocationCache_def enableInvocationCache_def
        disableInvocationCache_def)

theorem appInfo_tags_witness:
  "getAppConfig \<in> set appInfoApi \<and> kind getAppConfig = Query
   \<and> ''FetchOnReconnect'' \<in> set (providesTags getAppConfig)
   \<and> enableInvocationCache \<in> set appInfoApi \<and> kind enableInvocationCache = Mutation
   \<and> ''InvocationCacheStatus'' \<in> set (invalidatesTags enableInvocationCache)"
proof -
  have m1: "getAppConfig \<in> set appInfoApi" and m2: "enableInvocationCache \<in> set appInfoApi"
    by (simp_all add: appInfoApi_def)
  have k1: "kind getAppConfig = Query" and k2: "kind enableInvocationCache = Mutation"
    by (simp_all add: getAppConfig_def enableInvocationCache_def)
  from appInfo_tags have
    q: "\<forall>e \<in> set appInfoApi. kind e = Query \<longrightarrow> ''FetchOnReconnect'' \<in> set (providesTags e)"
    and m: "\<forall>e \<in> set appInfoApi. kind e = Mutation \<longrightarrow>
              ''InvocationCacheStatus'' \<in> set (invalidatesTags e)"
    by blast+
  from q m1 k1 have "''FetchOnReconnect'' \<in> set (providesTags getAppConfig)" by blast
  moreover from m m2 k2 have "''InvocationCacheStatus'' \<in> set (invalidatesTags enableInvocationCache)"
    by blast
  ultimately show ?thesis using m1 m2 k1 k2 by blast
qed

text \<open>
  The claim as stated counts the status endpoint among four mutations that invalidate the
  tag. It is a query, it invalidates nothing, and there are three mutations.
\<close>

theorem status_is_not_a_mutation:
  "\<not> is_mutation getInvocationCacheStatus
   \<and> ''InvocationCacheStatus'' \<notin> set (invalidatesTags getInvocationCacheStatus)
   \<and> length (filter is_mutation appInfoApi) = 3"
  by (simp add: appInfoApi_def getAppVersion_def getAppDeps_def getAppConfig_def
        getInvocationCacheStatus_def clearInvocationCache_def enableInvocationCache_def
        disableInvocationCache_def)

subsection \<open>The layer is gone after the quiet period\<close>

text \<open>
  C9. When the quiet period has passed and the current state holds no control-adapter layer
  with the triggering layer id, the effect returns: it dispatches nothing to the store, makes
  no request and detaches nothing.
\<close>

theorem missing_layer_returns:
  assumes "delay DEBOUNCE_MS (cancelled_after env) = Resolved ()"
    and "\<forall>ca. ControlAdapterLayer (layerId_of a) ca \<notin> set (state_after_delay env)"
  shows "outcome (effect tbl a env) = Returned
       \<and> detached (effect tbl a env) = []
       \<and> filter (\<lambda>e. is_state_write e \<or> is_network_call e) (events (effect tbl a env)) = []"
proof -
  from assms(2) have "find_layer (state_after_delay env) (layerId_of a) = None"
    by (simp add: find_layer_None_iff)
  with assms(1) show ?thesis by (simp add: effect_def)
qed

theorem missing_layer_returns_witness:
  "delay DEBOUNCE_MS (cancelled_after scenario) = Resolved ()
   \<and> (\<forall>ca. ControlAdapterLayer ''R1'' ca \<notin> set (state_after_delay scenario))
   \<and> outcome (effect canny_only (ImageChangedTrigger ''R1'' None) scenario) = Returned
   \<and> detached (effect canny_only (ImageChangedTrigger ''R1'' None) scenario) = []
   \<and> filter (\<lambda>e. is_state_write e \<or> is_network_call e)
        (events (effect canny_only (ImageChangedTrigger ''R1'' None) scenario)) = []"
proof -
  have h1: "delay DEBOUNCE_MS (cancelled_after scenario) = Resolved ()"
    by (simp add: delay_def scenario_def)
  have h2: "\<forall>ca. ControlAdapterLayer (layerId_of (ImageChangedTrigger ''R1'' None)) ca
              \<notin> set (state_after_delay scenario)"
    by (simp add: scenario_def)
  show ?thesis
    using h1 h2 missing_layer_returns [OF h1 h2, of canny_only] by simp
qed

subsection \<open>The pending batch id after a failure\<close>

text \<open>
  C10. In a run that submitted a batch and recorded the batch id \<open>b\<close> of the response, when
  the \<^verbatim>\<open>try\<close> block then fails, the listener is not cancelled and the error is not an
  access-denied response, the dispatch that recorded \<open>b\<close> as the layer's pending batch id is
  the last dispatch of a pending batch id in the run: nothing after it changes the pending
  batch id of any layer, and no cancellation is requested after it. The \<^verbatim>\<open>try\<close> statement
  detaches nothing; when the layer had no pending batch after the quiet period, the whole
  run detaches nothing, so that nothing is left that would clear \<open>b\<close> later.
\<close>

theorem failure_keeps_pending_batch_id:
  assumes "submitted (effect tbl a env) nd"
    and "enqueue_response env = Inr (Some b)" and "b \<noteq> []"
    and "try_block (layerId_of a) nd env = (evs, False, Rejected error)"
    and "\<not> is_forbidden_response error"
  shows "(\<exists>pre post. events (effect tbl a env) =
            pre @ Dispatch (CaLayerProcessorPendingBatchIdChanged (layerId_of a) (Some b)) # post
          \<and> (\<forall>l x. Dispatch (CaLayerProcessorPendingBatchIdChanged l x) \<notin> set post)
          \<and> (\<forall>bs. CancelByBatchIds bs \<notin> set post))
       \<and> detached (submit_and_reconcile (layerId_of a) nd env) = []
       \<and> (narrowed (pending_batch_id_of (state_after_delay env) (layerId_of a)) = None
            \<longrightarrow> detached (effect tbl a env) = [])"
proof -
  let ?lid = "layerId_of a"
  from assms(2-4) obtain rest
    where evs: "evs = Dispatch (CaLayerProcessorPendingBatchIdChanged ?lid (Some b)) # rest"
      and rest: "set rest \<subseteq> {Log Debug m | m. True} \<union> {GetImageDTO n | n. True}"
    by (auto simp: try_block_def Let_def
             split: take_result.splits invocation_output.splits sum.splits option.splits)
  have sub: "submit_and_reconcile ?lid nd env =
      \<lparr>events = evs @ [Log Error ''queue.graphFailedToQueue'',
                       Dispatch (AddToast ''queue.graphFailedToQueue'' ''error''),
                       ResetEnqueueRequest],
       detached = [], outcome = Returned\<rparr>"
    using assms(5) by (simp add: submit_and_reconcile_def assms(4) catch_block_def forbidden_check)
  from assms(1) show ?thesis
  proof (rule submitted_run)
    fix l :: "layer_id \<times> control_adapter"
    let ?pre = "before_submission ?lid (snd l) env
                @ [EnqueueBatch (enqueueBatchArg nd) ''enqueueBatch'']"
    let ?post = "rest @ [Log Error ''queue.graphFailedToQueue'',
                       Dispatch (AddToast ''queue.graphFailedToQueue'' ''error''),
                       ResetEnqueueRequest]"
    assume l: "find_layer (state_after_delay env) ?lid = Some l"
      and ev: "events (effect tbl a env) =
           before_submission ?lid (snd l) env
           @ [EnqueueBatch (enqueueBatchArg nd) ''enqueueBatch'']
           @ events (submit_and_reconcile ?lid nd env)"
      and det: "detached (effect tbl a env) =
           snd (cancel_if_pending ?lid (processorPendingBatchId (snd l))
                  (stale_cancel_response env))
           @ detached (submit_and_reconcile ?lid nd env)"
    have 1: "events (effect tbl a env) =
            ?pre @ Dispatch (CaLayerProcessorPendingBatchIdChanged ?lid (Some b)) # ?post"
      by (simp add: ev sub evs)
    have 2: "\<forall>l x. Dispatch (CaLayerProcessorPendingBatchIdChanged l x) \<notin> set ?post"
      using rest by auto
    have 3: "\<forall>bs. CancelByBatchIds bs \<notin> set ?post"
      using rest by auto
    have 4: "detached (submit_and_reconcile ?lid nd env) = []"
      by (simp add: sub)
    have 5: "detached (effect tbl a env) = []"
      if "narrowed (pending_batch_id_of (state_after_delay env) ?lid) = None"
      using that l by (simp add: det sub pending_batch_id_of_def cancel_if_pending_cases)
    from 1 2 3 have "\<exists>pre post. events (effect tbl a env) =
            pre @ Dispatch (CaLayerProcessorPendingBatchIdChanged ?lid (Some b)) # post
          \<and> (\<forall>l x. Dispatch (CaLayerProcessorPendingBatchIdChanged l x) \<notin> set post)
          \<and> (\<forall>bs. CancelByBatchIds bs \<notin> set post)"
      by blast
    with 4 5 show ?thesis by blast
  qed
qed

theorem failure_keeps_pending_batch_id_witness:
  "submitted (effect canny_only trigger_L1 latents_result) node_N1
   \<and> enqueue_response latents_result = Inr (Some ''B1'')
   \<and> \<not> is_forbidden_response (AssertionError ''Processor did not return an image output'')
   \<and> narrowed (pending_batch_id_of (state_after_delay latents_result) ''L1'') = None
   \<and> (\<exists>pre post. events (effect canny_only trigger_L1 latents_result) =
          pre @ Dispatch (CaLayerProcessorPendingBatchIdChanged ''L1'' (Some ''B1'')) # post
          \<and> (\<forall>l x. Dispatch (CaLayerProcessorPendingBatchIdChanged l x) \<notin> set post)
          \<and> (\<forall>bs. CancelByBatchIds bs \<notin> set post))
   \<and> detached (effect canny_only trigger_L1 latents_result) = []"
proof -
  have h1: "submitted (effect canny_only trigger_L1 latents_result) node_N1"
    by (simp add: submitted_def run_defs input_defs latents_result_def)
  have h2: "enqueue_response latents_result = Inr (Some ''B1'')"
    by (simp add: latents_result_def scenario_def)
  have h3: "''B1'' \<noteq> []" by simp
  have h4: "try_block (layerId_of trigger_L1) node_N1 latents_result =
     ([Dispatch (CaLayerProcessorPendingBatchIdChanged ''L1'' (Some ''B1'')),
       Log Debug ''queue.graphQueued''],
      False, Rejected (AssertionError ''Processor did not return an image output''))"
    by (simp add: try_block_def input_defs latents_result_def)
  have h5: "\<not> is_forbidden_response (AssertionError ''Processor did not return an image output'')"
    by (rule assertion_not_forbidden)
  have h6: "narrowed (pending_batch_id_of (state_after_delay latents_result)
              (layerId_of trigger_L1)) = None"
    by (simp add: pending_batch_id_of_def find_layer_def input_defs latents_result_def)
  have l: "layerId_of trigger_L1 = ''L1''"
    by (simp add: trigger_L1_def)
  from failure_keeps_pending_batch_id [OF h1 h2 h3 h4 h5] h6
  have "(\<exists>pre post. events (effect canny_only trigger_L1 latents_result) =
          pre @ Dispatch (CaLayerProcessorPendingBatchIdChanged ''L1'' (Some ''B1'')) # post
          \<and> (\<forall>l x. Dispatch (CaLayerProcessorPendingBatchIdChanged l x) \<notin> set post)
          \<and> (\<forall>bs. CancelByBatchIds bs \<notin> set post))
       \<and> detached (effect canny_only trigger_L1 latents_result) = []"
    unfolding l by blast
  with h1 h2 h5 h6 show ?thesis unfolding l by blast
qed

end
